theory Spec2Isabelle
  imports Main
begin

section \<open>Data model\<close>

text \<open>
  The order book of \<^verbatim>\<open>src/dlob/DLOB.ts\<close>. Prices, offsets and timestamps are
  \<^verbatim>\<open>BN\<close> values (unbounded integers) and become \<open>int\<close>; a market index is read with
  \<^verbatim>\<open>toNumber()\<close> and becomes \<open>nat\<close>; a public key is the string it prints as.
  The enums of the chain program arrive as objects with one own property named after
  the variant (\<^verbatim>\<open>{ open: {} }\<close>), which is what \<^verbatim>\<open>isVariant\<close> looks at.
\<close>

datatype OrderStatus = Init | Open | Filled | Canceled

datatype OrderType = Limit | Market | TriggerLimit | TriggerMarket

datatype PositionDirection = Long | Short

datatype OrderTriggerCondition = Above | Below

record Order =
  status :: OrderStatus
  orderType :: OrderType
  ts :: int
  orderId :: nat
  marketIndex :: nat
  price :: int
  direction :: PositionDirection
  triggerPrice :: int
  triggerCondition :: OrderTriggerCondition
  triggered :: bool
  postOnly :: bool
  oraclePriceOffset :: int
  auctionDuration :: int
  auctionStartPrice :: int
  auctionEndPrice :: int

record OraclePriceData =
  oracleData_price :: int

datatype DLOBNodeType = NT_limit | NT_floatingLimit | NT_market | NT_trigger

datatype SortDirection = Asc | Desc

datatype Side = Ask | Bid

text \<open>
  A node of the book: a user order of one of the four classes together with the
  account that placed it, or the synthetic vAMM node, which has a price and no order.
\<close>

datatype DLOBNode = OrderNode DLOBNodeType Order string | VammNode int

record NodeToFill =
  node :: DLOBNode
  makerNode :: "DLOBNode option"

text \<open>
  What a call can raise. \<open>TypeError\<close> is JavaScript's own error for reading a property
  of \<^verbatim>\<open>undefined\<close>; \<open>MissingOracle\<close> is the failure of a floating-limit price without
  oracle data.
\<close>

datatype error = TypeError | MissingOracle

datatype completion = Returned | Threw error

subsection \<open>Variant tests of the SDK\<close>

text \<open>
  \<^verbatim>\<open>isVariant(object, type)\<close> is \<^verbatim>\<open>object.hasOwnProperty(type)\<close> and
  \<^verbatim>\<open>isOneOfVariant(object, types)\<close> folds it over \<^verbatim>\<open>types\<close> with \<^verbatim>\<open>||\<close>. An object is
  represented here by the list of its own property names.
\<close>

fun keys_OrderStatus :: "OrderStatus \<Rightarrow> string list" where
  "keys_OrderStatus Init = [''init'']"
| "keys_OrderStatus Open = [''open'']"
| "keys_OrderStatus Filled = [''filled'']"
| "keys_OrderStatus Canceled = [''canceled'']"

fun keys_OrderType :: "OrderType \<Rightarrow> string list" where
  "keys_OrderType Limit = [''limit'']"
| "keys_OrderType Market = [''market'']"
| "keys_OrderType TriggerLimit = [''triggerLimit'']"
| "keys_OrderType TriggerMarket = [''triggerMarket'']"

fun keys_PositionDirection :: "PositionDirection \<Rightarrow> string list" where
  "keys_PositionDirection Long = [''long'']"
| "keys_PositionDirection Short = [''short'']"

fun keys_OrderTriggerCondition :: "OrderTriggerCondition \<Rightarrow> string list" where
  "keys_OrderTriggerCondition Above = [''above'']"
| "keys_OrderTriggerCondition Below = [''below'']"

text \<open>The own properties of an \<^verbatim>\<open>Order\<close> object are its fields.\<close>

definition keys_Order :: "Order \<Rightarrow> string list" where
  "keys_Order order =
     [''status'', ''orderType'', ''ts'', ''orderId'', ''marketIndex'', ''price'',
      ''direction'', ''triggerPrice'', ''triggerCondition'', ''triggered'', ''postOnly'',
      ''oraclePriceOffset'', ''auctionDuration'', ''auctionStartPrice'',
      ''auctionEndPrice'']"

definition isVariant :: "string list \<Rightarrow> string \<Rightarrow> bool" where
  "isVariant object ty = (ty \<in> set object)"

definition isOneOfVariant :: "string list \<Rightarrow> string list \<Rightarrow> bool" where
  "isOneOfVariant object types = foldl (\<lambda>result ty. result \<or> ty \<in> set object) False types"

text \<open>
  Modelled from the spec: \<^verbatim>\<open>isAuctionComplete\<close> of the SDK, which the sources do not
  hold. Section 4.1: true iff \<open>slot \<ge> order.ts + order.auctionDuration\<close>.
\<close>

definition isAuctionComplete :: "Order \<Rightarrow> int \<Rightarrow> bool" where
  "isAuctionComplete order slot = (ts order + auctionDuration order \<le> slot)"

subsection \<open>Nodes and their prices\<close>

text \<open>
  Modelled from the spec: \<^verbatim>\<open>DLOBNode.ts\<close> is not among the sources. Section 4.1: a
  limit node is priced at \<open>order.price\<close>; a floating-limit node at the oracle price plus
  the order's offset, failing without oracle data; a market node on the linear auction
  curve from \<open>auctionStartPrice\<close> to \<open>auctionEndPrice\<close>, clamped to the endpoints, at
  \<open>auctionEndPrice\<close> once the auction is complete; a trigger node against its
  \<open>triggerPrice\<close>; the vAMM node at the constant it was built with.
\<close>

definition getAuctionPrice :: "Order \<Rightarrow> int \<Rightarrow> int" where
  "getAuctionPrice order slot =
     (if isAuctionComplete order slot then auctionEndPrice order
      else if slot \<le> ts order then auctionStartPrice order
      else auctionStartPrice order
             + ((auctionEndPrice order - auctionStartPrice order) * (slot - ts order))
                 div auctionDuration order)"

fun getPrice :: "DLOBNode \<Rightarrow> OraclePriceData option \<Rightarrow> int \<Rightarrow> error + int" where
  "getPrice (VammNode p) oraclePriceData slot = Inr p"
| "getPrice (OrderNode NT_limit order userAccount) oraclePriceData slot = Inr (price order)"
| "getPrice (OrderNode NT_floatingLimit order userAccount) oraclePriceData slot =
     (case oraclePriceData of
        None \<Rightarrow> Inl MissingOracle
      | Some d \<Rightarrow> Inr (oracleData_price d + oraclePriceOffset order))"
| "getPrice (OrderNode NT_market order userAccount) oraclePriceData slot =
     Inr (getAuctionPrice order slot)"
| "getPrice (OrderNode NT_trigger order userAccount) oraclePriceData slot =
     Inr (triggerPrice order)"

fun isVammNode :: "DLOBNode \<Rightarrow> bool" where
  "isVammNode (VammNode p) = True"
| "isVammNode (OrderNode t order userAccount) = False"

subsection \<open>Node lists\<close>

text \<open>
  Modelled from the spec: \<^verbatim>\<open>NodeList.ts\<close> is not among the sources. Sections 3 and
  4.2: a list holds the nodes of one market, class and side in priority order. The sort
  key is \<open>order.price\<close> for limit lists, \<open>order.oraclePriceOffset\<close> for floating-limit
  lists, \<open>order.ts\<close> for market lists and \<open>order.triggerPrice\<close> for trigger lists;
  within a key the earlier \<open>ts\<close> comes first, and within equal \<open>ts\<close> the order of
  insertion is kept. \<open>insert\<close> keeps the list sorted and never inserts an order id
  twice, \<open>remove\<close> is silent when the order is absent, \<open>update\<close> replaces the order of a
  node where it stands, and \<open>getGenerator\<close> walks the list from its head. The order id
  is the fingerprint of \<open>(userAccount, order.orderId)\<close>, kept here as that pair.
\<close>

type_synonym OrderId = "string \<times> nat"

definition getOrderId :: "Order \<Rightarrow> string \<Rightarrow> OrderId" where
  "getOrderId order userAccount = (userAccount, orderId order)"

record NodeList =
  nodeType :: DLOBNodeType
  listMarketIndex :: nat
  sortDirection :: SortDirection
  entries :: "(Order \<times> string) list"

definition NodeList_new :: "DLOBNodeType \<Rightarrow> nat \<Rightarrow> SortDirection \<Rightarrow> NodeList" where
  "NodeList_new t m dir =
     \<lparr>nodeType = t, listMarketIndex = m, sortDirection = dir, entries = []\<rparr>"

fun getSortingPrice :: "DLOBNodeType \<Rightarrow> Order \<Rightarrow> int" where
  "getSortingPrice NT_limit order = price order"
| "getSortingPrice NT_floatingLimit order = oraclePriceOffset order"
| "getSortingPrice NT_market order = ts order"
| "getSortingPrice NT_trigger order = triggerPrice order"

definition prependNode :: "DLOBNodeType \<Rightarrow> SortDirection \<Rightarrow> Order \<Rightarrow> Order \<Rightarrow> bool" where
  "prependNode t dir currentOrder newOrder =
     (if getSortingPrice t newOrder = getSortingPrice t currentOrder
      then ts newOrder < ts currentOrder
      else (case dir of
              Asc \<Rightarrow> getSortingPrice t newOrder < getSortingPrice t currentOrder
            | Desc \<Rightarrow> getSortingPrice t newOrder > getSortingPrice t currentOrder))"

fun insertNode ::
  "DLOBNodeType \<Rightarrow> SortDirection \<Rightarrow> Order \<times> string \<Rightarrow> (Order \<times> string) list
     \<Rightarrow> (Order \<times> string) list" where
  "insertNode t dir new [] = [new]"
| "insertNode t dir new (cur # rest) =
     (if prependNode t dir (fst cur) (fst new) then new # cur # rest
      else cur # insertNode t dir new rest)"

definition hasOrder :: "NodeList \<Rightarrow> Order \<Rightarrow> string \<Rightarrow> bool" where
  "hasOrder l order userAccount =
     (getOrderId order userAccount \<in> set (map (\<lambda>(ord, u). getOrderId ord u) (entries l)))"

definition NodeList_insert :: "NodeList \<Rightarrow> Order \<Rightarrow> string \<Rightarrow> NodeList" where
  "NodeList_insert l order userAccount =
     (if hasOrder l order userAccount then l
      else l\<lparr>entries :=
               insertNode (nodeType l) (sortDirection l) (order, userAccount) (entries l)\<rparr>)"

definition NodeList_remove :: "NodeList \<Rightarrow> Order \<Rightarrow> string \<Rightarrow> NodeList" where
  "NodeList_remove l order userAccount =
     l\<lparr>entries :=
         filter (\<lambda>(ord, u). getOrderId ord u \<noteq> getOrderId order userAccount) (entries l)\<rparr>"

definition NodeList_update :: "NodeList \<Rightarrow> Order \<Rightarrow> string \<Rightarrow> NodeList" where
  "NodeList_update l order userAccount =
     l\<lparr>entries :=
         map (\<lambda>(ord, u).
                if getOrderId ord u = getOrderId order userAccount then (order, u)
                else (ord, u))
             (entries l)\<rparr>"

definition getGenerator :: "NodeList \<Rightarrow> DLOBNode list" where
  "getGenerator l = map (\<lambda>(ord, u). OrderNode (nodeType l) ord u) (entries l)"

definition getVammNodeGenerator :: "int \<Rightarrow> DLOBNode list" where
  "getVammNodeGenerator p = [VammNode p]"

section \<open>The book\<close>

record MarketNodeLists =
  limit_ask :: NodeList
  limit_bid :: NodeList
  floatingLimit_ask :: NodeList
  floatingLimit_bid :: NodeList
  market_ask :: NodeList
  market_bid :: NodeList
  trigger_above :: NodeList
  trigger_below :: NodeList

record DLOB =
  openOrders :: "OrderId set"
  orderLists :: "nat \<rightharpoonup> MarketNodeLists"

text \<open>The constructor: eight empty lists for every market index it is given.\<close>

definition newMarketNodeLists :: "nat \<Rightarrow> MarketNodeLists" where
  "newMarketNodeLists m =
     \<lparr>limit_ask = NodeList_new NT_limit m Asc,
      limit_bid = NodeList_new NT_limit m Desc,
      floatingLimit_ask = NodeList_new NT_floatingLimit m Asc,
      floatingLimit_bid = NodeList_new NT_floatingLimit m Desc,
      market_ask = NodeList_new NT_market m Asc,
      market_bid = NodeList_new NT_market m Asc,
      trigger_above = NodeList_new NT_trigger m Asc,
      trigger_below = NodeList_new NT_trigger m Desc\<rparr>"

fun constructor_loop :: "nat list \<Rightarrow> (nat \<rightharpoonup> MarketNodeLists) \<Rightarrow> (nat \<rightharpoonup> MarketNodeLists)" where
  "constructor_loop [] ols = ols"
| "constructor_loop (m # ms) ols = constructor_loop ms (ols(m \<mapsto> newMarketNodeLists m))"

definition DLOB_new :: "nat list \<Rightarrow> DLOB" where
  "DLOB_new marketIndexes =
     \<lparr>openOrders = {}, orderLists = constructor_loop marketIndexes Map.empty\<rparr>"

text \<open>
  \<^verbatim>\<open>lists[type][subType]\<close>: the list of a class and a side. A side the class does not
  have reads as \<^verbatim>\<open>undefined\<close>.
\<close>

fun selectList :: "MarketNodeLists \<Rightarrow> DLOBNodeType \<Rightarrow> string \<Rightarrow> NodeList option" where
  "selectList ls NT_limit s =
     (if s = ''ask'' then Some (limit_ask ls)
      else if s = ''bid'' then Some (limit_bid ls) else None)"
| "selectList ls NT_floatingLimit s =
     (if s = ''ask'' then Some (floatingLimit_ask ls)
      else if s = ''bid'' then Some (floatingLimit_bid ls) else None)"
| "selectList ls NT_market s =
     (if s = ''ask'' then Some (market_ask ls)
      else if s = ''bid'' then Some (market_bid ls) else None)"
| "selectList ls NT_trigger s =
     (if s = ''above'' then Some (trigger_above ls)
      else if s = ''below'' then Some (trigger_below ls) else None)"

text \<open>A list is mutated in place; in the model the changed list is written back.\<close>

fun storeList :: "MarketNodeLists \<Rightarrow> DLOBNodeType \<Rightarrow> string \<Rightarrow> NodeList \<Rightarrow> MarketNodeLists" where
  "storeList ls NT_limit s l =
     (if s = ''ask'' then ls\<lparr>limit_ask := l\<rparr>
      else if s = ''bid'' then ls\<lparr>limit_bid := l\<rparr> else ls)"
| "storeList ls NT_floatingLimit s l =
     (if s = ''ask'' then ls\<lparr>floatingLimit_ask := l\<rparr>
      else if s = ''bid'' then ls\<lparr>floatingLimit_bid := l\<rparr> else ls)"
| "storeList ls NT_market s l =
     (if s = ''ask'' then ls\<lparr>market_ask := l\<rparr>
      else if s = ''bid'' then ls\<lparr>market_bid := l\<rparr> else ls)"
| "storeList ls NT_trigger s l =
     (if s = ''above'' then ls\<lparr>trigger_above := l\<rparr>
      else if s = ''below'' then ls\<lparr>trigger_below := l\<rparr> else ls)"

text \<open>
  \<^verbatim>\<open>getListForOrder\<close> returns a reference to one list of the book: here the market,
  class and side that name it. Reading a market the constructor was not given yields
  \<^verbatim>\<open>undefined\<close>, and indexing that raises.
\<close>

type_synonym ListRef = "nat \<times> DLOBNodeType \<times> string"

definition getListForOrder :: "DLOB \<Rightarrow> Order \<Rightarrow> error + ListRef" where
  "getListForOrder dlob order =
     (let isInactiveTriggerOrder =
            (isOneOfVariant (keys_OrderType (orderType order)) [''triggerMarket'', ''triggerLimit'']
             \<and> \<not> triggered order);
          ty = (if isInactiveTriggerOrder then NT_trigger
                else if isOneOfVariant (keys_OrderType (orderType order)) [''market'', ''triggerMarket'']
                then NT_market
                else if oraclePriceOffset order > 0 then NT_floatingLimit
                else NT_limit);
          subType = (if isInactiveTriggerOrder
                     then (if isVariant (keys_OrderTriggerCondition (triggerCondition order)) ''above''
                           then ''above'' else ''below'')
                     else (if isVariant (keys_PositionDirection (direction order)) ''long''
                           then ''bid'' else ''ask''))
      in case orderLists dlob (marketIndex order) of
           None \<Rightarrow> Inl TypeError
         | Some ls \<Rightarrow> Inr (marketIndex order, ty, subType))"

definition readList :: "DLOB \<Rightarrow> ListRef \<Rightarrow> NodeList option" where
  "readList dlob r =
     (case r of (m, ty, subType) \<Rightarrow>
        (case orderLists dlob m of None \<Rightarrow> None | Some ls \<Rightarrow> selectList ls ty subType))"

definition writeList :: "DLOB \<Rightarrow> ListRef \<Rightarrow> NodeList \<Rightarrow> DLOB" where
  "writeList dlob r l =
     (case r of (m, ty, subType) \<Rightarrow>
        (case orderLists dlob m of
           None \<Rightarrow> dlob
         | Some ls \<Rightarrow> dlob\<lparr>orderLists := (orderLists dlob)(m \<mapsto> storeList ls ty subType l)\<rparr>))"

definition getOpenOrderId :: "Order \<Rightarrow> string \<Rightarrow> OrderId" where
  "getOpenOrderId order userAccount = getOrderId order userAccount"

text \<open>
  The four mutators. Each returns how the call ended and the book it left behind, so
  that a change made before an exception is visible. The optional callbacks observe and
  do not touch the book; they are left out.
\<close>

definition applyToList ::
  "DLOB \<Rightarrow> error + ListRef \<Rightarrow> (NodeList \<Rightarrow> NodeList) \<Rightarrow> completion \<times> DLOB" where
  "applyToList dlob target f =
     (case target of
        Inl e \<Rightarrow> (Threw e, dlob)
      | Inr r \<Rightarrow>
          (case readList dlob r of
             None \<Rightarrow> (Threw TypeError, dlob)
           | Some l \<Rightarrow> (Returned, writeList dlob r (f l))))"

definition insert_dlob :: "DLOB \<Rightarrow> Order \<Rightarrow> string \<Rightarrow> completion \<times> DLOB" where
  "insert_dlob dlob order userAccount =
     (if isVariant (keys_Order order) ''init'' then (Returned, dlob)
      else
        let dlob1 = (if isVariant (keys_OrderStatus (status order)) ''open''
                     then dlob\<lparr>openOrders :=
                                 insert (getOpenOrderId order userAccount) (openOrders dlob)\<rparr>
                     else dlob)
        in applyToList dlob1 (getListForOrder dlob1 order)
             (\<lambda>l. NodeList_insert l order userAccount))"

definition remove_dlob :: "DLOB \<Rightarrow> Order \<Rightarrow> string \<Rightarrow> completion \<times> DLOB" where
  "remove_dlob dlob order userAccount =
     (let dlob1 = dlob\<lparr>openOrders := openOrders dlob - {getOpenOrderId order userAccount}\<rparr>
      in applyToList dlob1 (getListForOrder dlob1 order)
           (\<lambda>l. NodeList_remove l order userAccount))"

definition update_dlob :: "DLOB \<Rightarrow> Order \<Rightarrow> string \<Rightarrow> completion \<times> DLOB" where
  "update_dlob dlob order userAccount =
     applyToList dlob (getListForOrder dlob order) (\<lambda>l. NodeList_update l order userAccount)"

definition trigger_dlob :: "DLOB \<Rightarrow> Order \<Rightarrow> string \<Rightarrow> completion \<times> DLOB" where
  "trigger_dlob dlob order userAccount =
     (case orderLists dlob (marketIndex order) of
        None \<Rightarrow> (Threw TypeError, dlob)
      | Some ls \<Rightarrow>
          let subType = (if isVariant (keys_OrderTriggerCondition (triggerCondition order)) ''above''
                         then ''above'' else ''below'');
              r = (marketIndex order, NT_trigger, subType)
          in (case readList dlob r of
                None \<Rightarrow> (Threw TypeError, dlob)
              | Some triggerList \<Rightarrow>
                  let dlob1 = writeList dlob r (NodeList_remove triggerList order userAccount)
                  in applyToList dlob1 (getListForOrder dlob1 order)
                       (\<lambda>l. NodeList_insert l order userAccount)))"

section \<open>Merge iterators\<close>

text \<open>
  \<^verbatim>\<open>Array.prototype.reduce\<close> without an initial value: the first element starts as
  the accumulator, and an empty array raises. The callback here may raise as well
  (a price that cannot be computed).
\<close>

fun reduce_from :: "('a \<Rightarrow> 'a \<Rightarrow> error + 'a) \<Rightarrow> 'a \<Rightarrow> 'a list \<Rightarrow> error + 'a" where
  "reduce_from f acc [] = Inr acc"
| "reduce_from f acc (x # xs) =
     (case f acc x of Inl e \<Rightarrow> Inl e | Inr acc' \<Rightarrow> reduce_from f acc' xs)"

fun reduce :: "('a \<Rightarrow> 'a \<Rightarrow> error + 'a) \<Rightarrow> 'a list \<Rightarrow> error + 'a" where
  "reduce f [] = Inl TypeError"
| "reduce f (x # xs) = reduce_from f x xs"

text \<open>
  An element of the \<^verbatim>\<open>generators\<close> array is a generator with its peeked
  \<^verbatim>\<open>next\<close>: here its position in the array and the nodes it has not handed out yet,
  the first of which is \<^verbatim>\<open>next.value\<close>; \<^verbatim>\<open>next.done\<close> is the empty list. The
  callback of the reducer is the same in \<^verbatim>\<open>getAsks\<close> and \<^verbatim>\<open>getBids\<close> up to
  the comparison (\<^verbatim>\<open>lt\<close> for asks, \<^verbatim>\<open>gt\<close> for bids), which is the parameter
  \<open>better\<close>.
\<close>

type_synonym PeekedGenerator = "nat \<times> DLOBNode list"

definition bestReducer ::
  "(int \<Rightarrow> int \<Rightarrow> bool) \<Rightarrow> OraclePriceData option \<Rightarrow> int
     \<Rightarrow> PeekedGenerator \<Rightarrow> PeekedGenerator \<Rightarrow> error + PeekedGenerator" where
  "bestReducer better oraclePriceData slot bestGenerator currentGenerator =
     (case snd currentGenerator of
        [] \<Rightarrow> Inr bestGenerator
      | currentNode # _ \<Rightarrow>
          (case snd bestGenerator of
             [] \<Rightarrow> Inr currentGenerator
           | bestNode # _ \<Rightarrow>
               (case getPrice bestNode oraclePriceData slot of
                  Inl e \<Rightarrow> Inl e
                | Inr bestPrice \<Rightarrow>
                    (case getPrice currentNode oraclePriceData slot of
                       Inl e \<Rightarrow> Inl e
                     | Inr currentPrice \<Rightarrow>
                         Inr (if better bestPrice currentPrice then bestGenerator
                              else currentGenerator)))))"

definition bestGenerator ::
  "(int \<Rightarrow> int \<Rightarrow> bool) \<Rightarrow> OraclePriceData option \<Rightarrow> int \<Rightarrow> DLOBNode list list
     \<Rightarrow> error + PeekedGenerator" where
  "bestGenerator better oraclePriceData slot generators =
     reduce (bestReducer better oraclePriceData slot)
       (zip [0 ..< length generators] generators)"

lemma reduce_from_mem:
  assumes "\<And>a b c. f a b = Inr c \<Longrightarrow> c = a \<or> c = b"
  shows "reduce_from f acc xs = Inr r \<Longrightarrow> r = acc \<or> r \<in> set xs"
proof (induction xs arbitrary: acc)
  case Nil
  then show ?case by simp
next
  case (Cons x xs)
  then obtain acc' where a: "f acc x = Inr acc'" and r: "reduce_from f acc' xs = Inr r"
    by (auto split: sum.splits)
  from assms [OF a] Cons.IH [OF r] show ?case by auto
qed

lemma bestReducer_pick:
  "bestReducer better od slot a b = Inr c \<Longrightarrow> c = a \<or> c = b"
  unfolding bestReducer_def
  by (cases "snd b"; cases "snd a"; simp split: sum.splits if_splits)

lemma bestGenerator_mem:
  assumes "bestGenerator better od slot gens = Inr (i, g)"
  shows "i < length gens \<and> gens ! i = g"
proof -
  have "(i, g) \<in> set (zip [0 ..< length gens] gens)"
  proof (cases "zip [0 ..< length gens] gens")
    case Nil
    with assms show ?thesis by (simp add: bestGenerator_def)
  next
    case (Cons x xs)
    with assms have "reduce_from (bestReducer better od slot) x xs = Inr (i, g)"
      by (simp add: bestGenerator_def)
    from reduce_from_mem [where f = "bestReducer better od slot", OF bestReducer_pick this]
    show ?thesis using Cons by auto
  qed
  then show ?thesis
    by (auto simp: set_zip)
qed

lemma sum_length_update:
  "i < length gens \<Longrightarrow> gens ! i = n # rest
     \<Longrightarrow> sum_list (map length (gens[i := rest])) < sum_list (map length gens)"
proof (induction gens arbitrary: i)
  case Nil
  then show ?case by simp
next
  case (Cons g gs)
  show ?case
  proof (cases i)
    case 0
    with Cons.prems show ?thesis by simp
  next
    case (Suc j)
    with Cons.prems have "j < length gs" "gs ! j = n # rest" by simp_all
    from Cons.IH [OF this] Suc show ?thesis by simp
  qed
qed

text \<open>
  The body of the generator function: pick the best peeked generator, hand out its
  node, advance it; stop when the best one is done. The result is the sequence of
  nodes the generator yields and, when a step raises, the error that ends it.
\<close>

function mergeLoop ::
  "(int \<Rightarrow> int \<Rightarrow> bool) \<Rightarrow> OraclePriceData option \<Rightarrow> int \<Rightarrow> DLOBNode list list
     \<Rightarrow> DLOBNode list \<times> error option" where
  "mergeLoop better oraclePriceData slot generators =
     (case bestGenerator better oraclePriceData slot generators of
        Inl e \<Rightarrow> ([], Some e)
      | Inr (i, g) \<Rightarrow>
          (case g of
             [] \<Rightarrow> ([], None)
           | n # rest \<Rightarrow>
               (case mergeLoop better oraclePriceData slot (generators[i := rest]) of
                  (ns, t) \<Rightarrow> (n # ns, t))))"
  by pat_completeness auto
termination
proof (relation "measure (\<lambda>(better, od, slot, gens). sum_list (map length gens))")
  show "wf (measure (\<lambda>(better, od, slot, gens). sum_list (map length gens)))"
    by simp
next
  fix better :: "int \<Rightarrow> int \<Rightarrow> bool" and oraclePriceData slot generators x2 x y n rest
  assume "bestGenerator better oraclePriceData slot generators = Inr x2"
    and "(x, y) = x2" and "y = n # rest"
  then have "bestGenerator better oraclePriceData slot generators = Inr (x, n # rest)"
    by simp
  from bestGenerator_mem [OF this]
  show "((better, oraclePriceData, slot, generators[x := rest]),
         (better, oraclePriceData, slot, generators))
        \<in> measure (\<lambda>(better, od, slot, gens). sum_list (map length gens))"
    by (simp add: sum_length_update)
qed

declare mergeLoop.simps [simp del]

type_synonym NodeStream = "DLOBNode list \<times> error option"

definition getAsks ::
  "DLOB \<Rightarrow> nat \<Rightarrow> int \<Rightarrow> int \<Rightarrow> OraclePriceData option \<Rightarrow> NodeStream" where
  "getAsks dlob market vAsk slot oraclePriceData =
     (case orderLists dlob market of
        None \<Rightarrow> ([], Some TypeError)
      | Some nodeLists \<Rightarrow>
          mergeLoop (\<lambda>bestAskPrice currentAskPrice. bestAskPrice < currentAskPrice)
            oraclePriceData slot
            [getGenerator (limit_ask nodeLists),
             getGenerator (floatingLimit_ask nodeLists),
             getGenerator (market_ask nodeLists),
             getVammNodeGenerator vAsk])"

definition getBids ::
  "DLOB \<Rightarrow> nat \<Rightarrow> int \<Rightarrow> int \<Rightarrow> OraclePriceData option \<Rightarrow> NodeStream" where
  "getBids dlob market vBid slot oraclePriceData =
     (case orderLists dlob market of
        None \<Rightarrow> ([], Some TypeError)
      | Some nodeLists \<Rightarrow>
          mergeLoop (\<lambda>bestBidPrice currentBidPrice. bestBidPrice > currentBidPrice)
            oraclePriceData slot
            [getGenerator (limit_bid nodeLists),
             getGenerator (floatingLimit_bid nodeLists),
             getGenerator (market_bid nodeLists),
             getVammNodeGenerator vBid])"

text \<open>
  \<^verbatim>\<open>generator.next()\<close> on a stream: the next node, or done, or the error that ends
  the stream.
\<close>

fun nextOf :: "NodeStream \<Rightarrow> error + (DLOBNode option \<times> NodeStream)" where
  "nextOf (n # ns, t) = Inr (Some n, (ns, t))"
| "nextOf ([], None) = Inr (None, ([], None))"
| "nextOf ([], Some e) = Inl e"

definition getBestAsk ::
  "DLOB \<Rightarrow> nat \<Rightarrow> int \<Rightarrow> int \<Rightarrow> OraclePriceData option \<Rightarrow> error + int" where
  "getBestAsk dlob market vAsk slot oraclePriceData =
     (case nextOf (getAsks dlob market vAsk slot oraclePriceData) of
        Inl e \<Rightarrow> Inl e
      | Inr (None, _) \<Rightarrow> Inl TypeError
      | Inr (Some n, _) \<Rightarrow> getPrice n oraclePriceData slot)"

definition getBestBid ::
  "DLOB \<Rightarrow> nat \<Rightarrow> int \<Rightarrow> int \<Rightarrow> OraclePriceData option \<Rightarrow> error + int" where
  "getBestBid dlob market vBid slot oraclePriceData =
     (case nextOf (getBids dlob market vBid slot oraclePriceData) of
        Inl e \<Rightarrow> Inl e
      | Inr (None, _) \<Rightarrow> Inl TypeError
      | Inr (Some n, _) \<Rightarrow> getPrice n oraclePriceData slot)"

section \<open>Matching engine\<close>

text \<open>
  \<^verbatim>\<open>findCrossingOrders\<close> returns \<^verbatim>\<open>{ crossingNodes?, crossingSide? }\<close>: a missing
  property is \<open>None\<close>. The order of a node is read only after both vAMM tests, so it
  is there.
\<close>

definition findCrossingOrders ::
  "DLOBNode \<Rightarrow> DLOBNode \<Rightarrow> OraclePriceData option \<Rightarrow> int
     \<Rightarrow> error + (NodeToFill option \<times> Side option)" where
  "findCrossingOrders askNode bidNode oraclePriceData slot =
     (case getPrice bidNode oraclePriceData slot of
        Inl e \<Rightarrow> Inl e
      | Inr bidPrice \<Rightarrow>
     (case getPrice askNode oraclePriceData slot of
        Inl e \<Rightarrow> Inl e
      | Inr askPrice \<Rightarrow>
          if bidPrice < askPrice then Inr (None, None)
          else
            (case askNode of
               VammNode _ \<Rightarrow> Inr (None, Some Bid)
             | OrderNode _ askOrder _ \<Rightarrow>
            (case bidNode of
               VammNode _ \<Rightarrow> Inr (None, Some Ask)
             | OrderNode _ bidOrder _ \<Rightarrow>
                 if postOnly bidOrder \<and> postOnly askOrder
                 then Inr (None, Some (if ts bidOrder < ts askOrder then Bid else Ask))
                 else if postOnly bidOrder
                 then Inr (Some \<lparr>node = askNode, makerNode = Some bidNode\<rparr>, Some Ask)
                 else if postOnly askOrder
                 then Inr (Some \<lparr>node = bidNode, makerNode = Some askNode\<rparr>, Some Bid)
                 else
                   let newerNode = (if ts bidOrder < ts askOrder then askNode else bidNode);
                       olderNode = (if ts askOrder < ts bidOrder then bidNode else askNode);
                       crossingSide = (if ts askOrder < ts bidOrder then Bid else Ask)
                   in Inr (Some \<lparr>node = newerNode, makerNode = Some olderNode\<rparr>,
                           Some crossingSide)))))"

text \<open>
  \<^verbatim>\<open>if (crossingNodes) nodesToFill.push(crossingNodes)\<close>: the fills after the test.
\<close>

definition pushCrossing :: "NodeToFill option \<Rightarrow> NodeToFill list \<Rightarrow> NodeToFill list" where
  "pushCrossing crossingNodes nodesToFill =
     (case crossingNodes of None \<Rightarrow> nodesToFill | Some cn \<Rightarrow> nodesToFill @ [cn])"

text \<open>
  The \<^verbatim>\<open>while\<close> loop of \<^verbatim>\<open>findCrossingNodesToFill\<close>. Its state is the two peeked
  results \<^verbatim>\<open>nextAsk\<close> and \<^verbatim>\<open>nextBid\<close> (\<open>None\<close> is done), what is left of the two
  generators, and the fills found so far.
\<close>

function crossingLoop ::
  "OraclePriceData option \<Rightarrow> int \<Rightarrow> DLOBNode option \<Rightarrow> NodeStream
     \<Rightarrow> DLOBNode option \<Rightarrow> NodeStream \<Rightarrow> NodeToFill list \<Rightarrow> error + NodeToFill list" where
  "crossingLoop oraclePriceData slot nextAsk askGenerator nextBid bidGenerator nodesToFill =
     (case nextAsk of
        None \<Rightarrow> Inr nodesToFill
      | Some askNode \<Rightarrow>
     (case nextBid of
        None \<Rightarrow> Inr nodesToFill
      | Some bidNode \<Rightarrow>
     (case findCrossingOrders askNode bidNode oraclePriceData slot of
        Inl e \<Rightarrow> Inl e
      | Inr (crossingNodes, crossingSide) \<Rightarrow>
          if crossingNodes \<noteq> None \<and> length (pushCrossing crossingNodes nodesToFill) = 10
          then Inr (pushCrossing crossingNodes nodesToFill)
          else
            (case crossingSide of
               Some Bid \<Rightarrow>
                 (case nextOf bidGenerator of
                    Inl e \<Rightarrow> Inl e
                  | Inr (nextBid1, bidGenerator1) \<Rightarrow>
                      crossingLoop oraclePriceData slot nextAsk askGenerator
                        nextBid1 bidGenerator1 (pushCrossing crossingNodes nodesToFill))
             | Some Ask \<Rightarrow>
                 (case nextOf askGenerator of
                    Inl e \<Rightarrow> Inl e
                  | Inr (nextAsk1, askGenerator1) \<Rightarrow>
                      crossingLoop oraclePriceData slot nextAsk1 askGenerator1
                        nextBid bidGenerator (pushCrossing crossingNodes nodesToFill))
             | None \<Rightarrow> Inr (pushCrossing crossingNodes nodesToFill)))))"
  by pat_completeness auto
termination
  by (relation "measure (\<lambda>(od, slot, nextAsk, askGenerator, nextBid, bidGenerator, acc).
         (case nextAsk of None \<Rightarrow> 0 | Some _ \<Rightarrow> 1) + length (fst askGenerator)
         + (case nextBid of None \<Rightarrow> 0 | Some _ \<Rightarrow> 1) + length (fst bidGenerator))")
     (auto elim!: nextOf.elims)

declare crossingLoop.simps [simp del]

definition findCrossingNodesToFill ::
  "DLOB \<Rightarrow> nat \<Rightarrow> int \<Rightarrow> int \<Rightarrow> int \<Rightarrow> OraclePriceData option \<Rightarrow> error + NodeToFill list" where
  "findCrossingNodesToFill dlob market vBid vAsk slot oraclePriceData =
     (let askGenerator = getAsks dlob market vAsk slot oraclePriceData;
          bidGenerator = getBids dlob market vBid slot oraclePriceData
      in case nextOf askGenerator of
           Inl e \<Rightarrow> Inl e
         | Inr (nextAsk, askGenerator1) \<Rightarrow>
             (case nextOf bidGenerator of
                Inl e \<Rightarrow> Inl e
              | Inr (nextBid, bidGenerator1) \<Rightarrow>
                  crossingLoop oraclePriceData slot nextAsk askGenerator1
                    nextBid bidGenerator1 []))"

definition getMarketBids :: "DLOB \<Rightarrow> nat \<Rightarrow> error + DLOBNode list" where
  "getMarketBids dlob market =
     (case orderLists dlob market of
        None \<Rightarrow> Inl TypeError
      | Some nodeLists \<Rightarrow> Inr (getGenerator (market_bid nodeLists)))"

definition getMarketAsks :: "DLOB \<Rightarrow> nat \<Rightarrow> error + DLOBNode list" where
  "getMarketAsks dlob market =
     (case orderLists dlob market of
        None \<Rightarrow> Inl TypeError
      | Some nodeLists \<Rightarrow> Inr (getGenerator (market_ask nodeLists)))"

text \<open>
  One \<^verbatim>\<open>for ... of\<close> loop of \<^verbatim>\<open>findMarketNodesToFill\<close>; reading the order of a
  node that has none raises.
\<close>

fun marketFillLoop :: "DLOBNode list \<Rightarrow> int \<Rightarrow> NodeToFill list \<Rightarrow> error + NodeToFill list" where
  "marketFillLoop [] slot nodesToFill = Inr nodesToFill"
| "marketFillLoop (VammNode p # rest) slot nodesToFill = Inl TypeError"
| "marketFillLoop (OrderNode t order userAccount # rest) slot nodesToFill =
     marketFillLoop rest slot
       (if isAuctionComplete order slot
        then nodesToFill @ [\<lparr>node = OrderNode t order userAccount, makerNode = None\<rparr>]
        else nodesToFill)"

definition findMarketNodesToFill :: "DLOB \<Rightarrow> nat \<Rightarrow> int \<Rightarrow> error + NodeToFill list" where
  "findMarketNodesToFill dlob market slot =
     (case getMarketBids dlob market of
        Inl e \<Rightarrow> Inl e
      | Inr marketBids \<Rightarrow>
          (case marketFillLoop marketBids slot [] of
             Inl e \<Rightarrow> Inl e
           | Inr nodesToFill \<Rightarrow>
               (case getMarketAsks dlob market of
                  Inl e \<Rightarrow> Inl e
                | Inr marketAsks \<Rightarrow> marketFillLoop marketAsks slot nodesToFill)))"

definition findNodesToFill ::
  "DLOB \<Rightarrow> nat \<Rightarrow> int \<Rightarrow> int \<Rightarrow> int \<Rightarrow> OraclePriceData option \<Rightarrow> error + NodeToFill list" where
  "findNodesToFill dlob market vBid vAsk slot oraclePriceData =
     (case findCrossingNodesToFill dlob market vBid vAsk slot oraclePriceData of
        Inl e \<Rightarrow> Inl e
      | Inr crossingNodesToFill \<Rightarrow>
          (case findMarketNodesToFill dlob market slot of
             Inl e \<Rightarrow> Inl e
           | Inr marketNodesToFill \<Rightarrow> Inr (crossingNodesToFill @ marketNodesToFill)))"

section \<open>Trigger scanner\<close>

record NodeToTrigger =
  triggerNode :: DLOBNode

text \<open>
  One \<^verbatim>\<open>for ... of\<close> loop of \<^verbatim>\<open>findNodesToTrigger\<close>: \<open>crosses\<close> is
  \<^verbatim>\<open>oraclePrice.gt(triggerPrice)\<close> for the list above and
  \<^verbatim>\<open>oraclePrice.lt(triggerPrice)\<close> for the list below; the \<^verbatim>\<open>else\<close> branch breaks.
\<close>

fun triggerLoop ::
  "(int \<Rightarrow> int \<Rightarrow> bool) \<Rightarrow> DLOBNode list \<Rightarrow> int \<Rightarrow> int \<Rightarrow> NodeToTrigger list
     \<Rightarrow> error + NodeToTrigger list" where
  "triggerLoop crosses [] slot oraclePrice nodesToTrigger = Inr nodesToTrigger"
| "triggerLoop crosses (VammNode p # rest) slot oraclePrice nodesToTrigger = Inl TypeError"
| "triggerLoop crosses (OrderNode t order userAccount # rest) slot oraclePrice nodesToTrigger =
     (if crosses oraclePrice (triggerPrice order)
      then triggerLoop crosses rest slot oraclePrice
             (if isAuctionComplete order slot
              then nodesToTrigger @ [\<lparr>triggerNode = OrderNode t order userAccount\<rparr>]
              else nodesToTrigger)
      else Inr nodesToTrigger)"

definition findNodesToTrigger :: "DLOB \<Rightarrow> nat \<Rightarrow> int \<Rightarrow> int \<Rightarrow> error + NodeToTrigger list" where
  "findNodesToTrigger dlob market slot oraclePrice =
     (case orderLists dlob market of
        None \<Rightarrow> Inl TypeError
      | Some nodeLists \<Rightarrow>
          (case triggerLoop (\<lambda>p t. p > t) (getGenerator (trigger_above nodeLists))
                  slot oraclePrice [] of
             Inl e \<Rightarrow> Inl e
           | Inr nodesToTrigger \<Rightarrow>
               triggerLoop (\<lambda>p t. p < t) (getGenerator (trigger_below nodeLists))
                 slot oraclePrice nodesToTrigger))"

section \<open>Reference results and sample books\<close>

text \<open>
  What the two scanners are expected to return, written on the entries of a list: the
  trigger scan keeps the complete auctions among the entries before the first one the
  oracle price does not cross; the market scan keeps every complete auction.
\<close>

definition triggeredNodes ::
  "(int \<Rightarrow> int \<Rightarrow> bool) \<Rightarrow> NodeList \<Rightarrow> int \<Rightarrow> int \<Rightarrow> NodeToTrigger list" where
  "triggeredNodes crosses l slot oraclePrice =
     map (\<lambda>(ord, u). \<lparr>triggerNode = OrderNode (nodeType l) ord u\<rparr>)
       (filter (\<lambda>(ord, u). isAuctionComplete ord slot)
          (takeWhile (\<lambda>(ord, u). crosses oraclePrice (triggerPrice ord)) (entries l)))"

definition auctionCompleteNodes :: "NodeList \<Rightarrow> int \<Rightarrow> NodeToFill list" where
  "auctionCompleteNodes l slot =
     map (\<lambda>(ord, u). \<lparr>node = OrderNode (nodeType l) ord u, makerNode = None\<rparr>)
       (filter (\<lambda>(ord, u). isAuctionComplete ord slot) (entries l))"

text \<open>An open limit ask at 100 on market 0, placed at slot 1; the samples vary it.\<close>

definition sampleOrder :: Order where
  "sampleOrder =
     \<lparr>status = Open, orderType = Limit, ts = 1, orderId = 1, marketIndex = 0,
      price = 100, direction = Short, triggerPrice = 0, triggerCondition = Above,
      triggered = False, postOnly = False, oraclePriceOffset = 0, auctionDuration = 0,
      auctionStartPrice = 0, auctionEndPrice = 0\<rparr>"

definition triggerOrder :: "nat \<Rightarrow> int \<Rightarrow> int \<Rightarrow> Order" where
  "triggerOrder i tp dur =
     sampleOrder\<lparr>orderType := TriggerLimit, orderId := i, triggerPrice := tp,
                 auctionDuration := dur\<rparr>"

definition marketOrder :: "nat \<Rightarrow> PositionDirection \<Rightarrow> int \<Rightarrow> int \<Rightarrow> int \<Rightarrow> Order" where
  "marketOrder i dir t dur endPrice =
     sampleOrder\<lparr>orderType := Market, orderId := i, direction := dir, ts := t,
                 auctionDuration := dur, auctionEndPrice := endPrice\<rparr>"

text \<open>
  A book whose list above holds trigger prices 90, 92 (auction still running at slot
  10), 95 and 100, and whose list below holds 99 and 97.
\<close>

definition triggerLists :: MarketNodeLists where
  "triggerLists =
     (newMarketNodeLists 0)
       \<lparr>trigger_above := (NodeList_new NT_trigger 0 Asc)
          \<lparr>entries := [(triggerOrder 1 90 0, ''alice''), (triggerOrder 2 92 50, ''bob''),
                       (triggerOrder 3 95 0, ''carol''), (triggerOrder 4 100 0, ''dave'')]\<rparr>,
        trigger_below := (NodeList_new NT_trigger 0 Desc)
          \<lparr>entries := [(triggerOrder 5 99 0, ''erin''), (triggerOrder 6 97 0, ''frank'')]\<rparr>\<rparr>"

definition triggerBook :: DLOB where
  "triggerBook = \<lparr>openOrders = {}, orderLists = [0 \<mapsto> triggerLists]\<rparr>"

text \<open>
  A book with three market bids, the second still in its auction at slot 10, and two
  market asks, the first still in its auction.
\<close>

definition marketLists :: MarketNodeLists where
  "marketLists =
     (newMarketNodeLists 0)
       \<lparr>market_bid := (NodeList_new NT_market 0 Asc)
          \<lparr>entries := [(marketOrder 1 Long 1 0 100, ''alice''),
                       (marketOrder 2 Long 2 50 100, ''bob''),
                       (marketOrder 3 Long 3 0 100, ''carol'')]\<rparr>,
        market_ask := (NodeList_new NT_market 0 Asc)
          \<lparr>entries := [(marketOrder 4 Short 4 50 100, ''dave''),
                       (marketOrder 5 Short 5 0 100, ''erin'')]\<rparr>\<rparr>"

definition marketBook :: DLOB where
  "marketBook = \<lparr>openOrders = {}, orderLists = [0 \<mapsto> marketLists]\<rparr>"

section \<open>Properties\<close>

subsection \<open>Routing\<close>

lemma isOneOfVariant_pair:
  "isOneOfVariant object [a, b] = (a \<in> set object \<or> b \<in> set object)"
  by (simp add: isOneOfVariant_def)

text \<open>
  An active order of limit type goes to the floating-limit list of its side when its
  offset is positive, and to the fixed-price limit list otherwise.
\<close>

lemma getListForOrder_limit:
  assumes "orderLists dlob (marketIndex order) = Some nodeLists"
    and "orderType order = Limit \<or> (orderType order = TriggerLimit \<and> triggered order)"
  shows "getListForOrder dlob order =
           Inr (marketIndex order,
                if oraclePriceOffset order > 0 then NT_floatingLimit else NT_limit,
                if direction order = Long then ''bid'' else ''ask'')"
  using assms
  by (cases "direction order")
     (auto simp: getListForOrder_def isOneOfVariant_pair isVariant_def)

text \<open>
  C2. The claim: an active limit order is routed to the floating-limit list of its side
  exactly when its \<open>oraclePriceOffset\<close> is nonzero, negative offsets included. The code
  tests \<^verbatim>\<open>oraclePriceOffset.gt(ZERO)\<close>: a limit bid with offset \<open>-5\<close> is routed to the
  fixed-price limit bid list.
\<close>

theorem getListForOrder_negative_offset:
  "getListForOrder (DLOB_new [0]) (sampleOrder\<lparr>direction := Long, oraclePriceOffset := - 5\<rparr>)
     = Inr (0, NT_limit, ''bid'')"
  by (simp add: getListForOrder_def DLOB_new_def sampleOrder_def isOneOfVariant_pair
        isVariant_def)

subsection \<open>Insertion\<close>

text \<open>
  C3. The claim: \<open>insert\<close> of an order whose status is \<open>init\<close> changes nothing. The guard
  of the code is \<^verbatim>\<open>isVariant(order, 'init')\<close>, on the order and not on its status, and
  an order has no property \<open>init\<close>: the order with status \<open>init\<close> is placed into the limit
  ask list of a fresh book.
\<close>

theorem insert_init_order:
  "(case insert_dlob (DLOB_new [0]) (sampleOrder\<lparr>status := Init\<rparr>) ''alice'' of
      (c, dlob) \<Rightarrow>
        c = Returned \<and> openOrders dlob = {} \<and>
        map_option (\<lambda>ls. entries (limit_ask ls)) (orderLists dlob 0)
          = Some [(sampleOrder\<lparr>status := Init\<rparr>, ''alice'')])"
  by (simp add: insert_dlob_def keys_Order_def applyToList_def getListForOrder_def
        DLOB_new_def sampleOrder_def isOneOfVariant_pair isVariant_def readList_def
        writeList_def newMarketNodeLists_def NodeList_new_def NodeList_insert_def
        hasOrder_def)

subsection \<open>Crossing orders\<close>

text \<open>
  C4, as the code has it. When two user orders cross and both are post-only, no fill is
  emitted and the side returned is the bid when the bid has the smaller \<open>ts\<close>, and the
  ask otherwise: the order that is advanced is the older one (the ask on equal \<open>ts\<close>),
  and the newer one stays at the head of its stream.
\<close>

theorem findCrossingOrders_both_postOnly:
  assumes "getPrice (OrderNode ta askOrder ua) oraclePriceData slot = Inr askPrice"
    and "getPrice (OrderNode tb bidOrder ub) oraclePriceData slot = Inr bidPrice"
    and "askPrice \<le> bidPrice"
    and "postOnly askOrder" and "postOnly bidOrder"
  shows "findCrossingOrders (OrderNode ta askOrder ua) (OrderNode tb bidOrder ub)
           oraclePriceData slot
         = Inr (None, Some (if ts bidOrder < ts askOrder then Bid else Ask))"
  using assms by (simp add: findCrossingOrders_def)

theorem findCrossingOrders_both_postOnly_witness:
  "getPrice (OrderNode NT_limit (sampleOrder\<lparr>postOnly := True, ts := 2\<rparr>) ''alice'') None 5
     = Inr 100
   \<and> getPrice (OrderNode NT_limit (sampleOrder\<lparr>direction := Long, postOnly := True\<rparr>) ''bob'')
       None 5 = Inr 100
   \<and> (100::int) \<le> 100
   \<and> postOnly (sampleOrder\<lparr>postOnly := True, ts := 2\<rparr>)
   \<and> postOnly (sampleOrder\<lparr>direction := Long, postOnly := True\<rparr>)
   \<and> findCrossingOrders
       (OrderNode NT_limit (sampleOrder\<lparr>postOnly := True, ts := 2\<rparr>) ''alice'')
       (OrderNode NT_limit (sampleOrder\<lparr>direction := Long, postOnly := True\<rparr>) ''bob'')
       None 5
     = Inr (None, Some Bid)"
  using findCrossingOrders_both_postOnly
    [of NT_limit "sampleOrder\<lparr>postOnly := True, ts := 2\<rparr>" "''alice''" None 5 100
        NT_limit "sampleOrder\<lparr>direction := Long, postOnly := True\<rparr>" "''bob''" 100]
  by (simp add: sampleOrder_def)

text \<open>
  C4, as claimed: the newer of two crossing post-only orders is advanced. With the ask
  placed at slot 1 and the bid at slot 2 the side returned is the ask, the older order.
\<close>

theorem findCrossingOrders_both_postOnly_counterexample:
  "ts (sampleOrder\<lparr>postOnly := True\<rparr>)
     < ts (sampleOrder\<lparr>direction := Long, postOnly := True, ts := 2\<rparr>)
   \<and> findCrossingOrders
       (OrderNode NT_limit (sampleOrder\<lparr>postOnly := True\<rparr>) ''alice'')
       (OrderNode NT_limit (sampleOrder\<lparr>direction := Long, postOnly := True, ts := 2\<rparr>) ''bob'')
       None 5
     = Inr (None, Some Ask)"
  by (simp add: findCrossingOrders_def sampleOrder_def)

text \<open>
  C5. The claim: of two crossing orders that are both takers the older is the maker and
  the newer is the node to fill. With the bid placed at slot 1 and the ask at slot 2,
  \<^verbatim>\<open>olderNode\<close> is computed as the ask: the ask is emitted as the node and as its own
  maker.
\<close>

theorem findCrossingOrders_both_takers_bid_older:
  "findCrossingOrders
     (OrderNode NT_limit (sampleOrder\<lparr>ts := 2\<rparr>) ''alice'')
     (OrderNode NT_limit (sampleOrder\<lparr>direction := Long, ts := 1\<rparr>) ''bob'')
     None 5
   = Inr (Some \<lparr>node = OrderNode NT_limit (sampleOrder\<lparr>ts := 2\<rparr>) ''alice'',
               makerNode = Some (OrderNode NT_limit (sampleOrder\<lparr>ts := 2\<rparr>) ''alice'')\<rparr>,
          Some Ask)"
  by (simp add: findCrossingOrders_def sampleOrder_def)

subsection \<open>Scanning the trigger lists and the market lists\<close>

lemma triggerLoop_entries:
  "triggerLoop crosses (map (\<lambda>(ord, u). OrderNode t ord u) es) slot p acc =
     Inr (acc @ map (\<lambda>(ord, u). \<lparr>triggerNode = OrderNode t ord u\<rparr>)
                  (filter (\<lambda>(ord, u). isAuctionComplete ord slot)
                     (takeWhile (\<lambda>(ord, u). crosses p (triggerPrice ord)) es)))"
  by (induction es arbitrary: acc) auto

lemma marketFillLoop_entries:
  "marketFillLoop (map (\<lambda>(ord, u). OrderNode t ord u) es) slot acc =
     Inr (acc @ map (\<lambda>(ord, u). \<lparr>node = OrderNode t ord u, makerNode = None\<rparr>)
                  (filter (\<lambda>(ord, u). isAuctionComplete ord slot) es))"
  by (induction es arbitrary: acc) auto

text \<open>
  C7. On a market of the book, \<open>findNodesToTrigger\<close> returns, in list order, the nodes
  of the list above that come before the first node with \<open>oraclePrice \<le> triggerPrice\<close>
  and whose auction is complete, followed by the nodes of the list below that come
  before the first node with \<open>oraclePrice \<ge> triggerPrice\<close> and whose auction is
  complete. A node whose auction is running is left out and the scan goes on.
\<close>

theorem findNodesToTrigger_scan:
  assumes "orderLists dlob market = Some nodeLists"
  shows "findNodesToTrigger dlob market slot oraclePrice =
           Inr (triggeredNodes (\<lambda>p t. t < p) (trigger_above nodeLists) slot oraclePrice
                @ triggeredNodes (\<lambda>p t. p < t) (trigger_below nodeLists) slot oraclePrice)"
  using assms
  by (simp add: findNodesToTrigger_def getGenerator_def triggerLoop_entries triggeredNodes_def)

theorem findNodesToTrigger_scan_witness:
  "orderLists triggerBook 0 = Some triggerLists
   \<and> findNodesToTrigger triggerBook 0 10 97 =
       Inr [\<lparr>triggerNode = OrderNode NT_trigger (triggerOrder 1 90 0) ''alice''\<rparr>,
            \<lparr>triggerNode = OrderNode NT_trigger (triggerOrder 3 95 0) ''carol''\<rparr>,
            \<lparr>triggerNode = OrderNode NT_trigger (triggerOrder 5 99 0) ''erin''\<rparr>]"
  using findNodesToTrigger_scan [of triggerBook 0 triggerLists 10 97]
  by (simp add: triggerBook_def triggerLists_def triggeredNodes_def newMarketNodeLists_def
        NodeList_new_def triggerOrder_def sampleOrder_def isAuctionComplete_def)

text \<open>
  On a list that is sorted by trigger price the scan stops where no later node can
  cross, so the nodes before the stop are all the nodes that cross.
\<close>

lemma takeWhile_sorted_filter:
  assumes "sorted_wrt (\<lambda>a b. key a \<le> key b) es"
  shows "takeWhile (\<lambda>e. key e < (p::int)) es = filter (\<lambda>e. key e < p) es"
  using assms
proof (induction es)
  case Nil
  then show ?case by simp
next
  case (Cons e es)
  then show ?case
    by (auto intro!: filter_False [symmetric] simp: not_less)
qed

text \<open>
  C10. On a market of the book, \<open>findMarketNodesToFill\<close> returns the market bids whose
  auction is complete, in list order, followed by the market asks whose auction is
  complete, in list order, each without a maker; a node whose auction is running is
  left out and the scan goes on.
\<close>

theorem findMarketNodesToFill_complete:
  assumes "orderLists dlob market = Some nodeLists"
  shows "findMarketNodesToFill dlob market slot =
           Inr (auctionCompleteNodes (market_bid nodeLists) slot
                @ auctionCompleteNodes (market_ask nodeLists) slot)"
  using assms
  by (simp add: findMarketNodesToFill_def getMarketBids_def getMarketAsks_def
        getGenerator_def marketFillLoop_entries auctionCompleteNodes_def)

theorem findMarketNodesToFill_complete_witness:
  "orderLists marketBook 0 = Some marketLists
   \<and> findMarketNodesToFill marketBook 0 10 =
       Inr [\<lparr>node = OrderNode NT_market (marketOrder 1 Long 1 0 100) ''alice'', makerNode = None\<rparr>,
            \<lparr>node = OrderNode NT_market (marketOrder 3 Long 3 0 100) ''carol'', makerNode = None\<rparr>,
            \<lparr>node = OrderNode NT_market (marketOrder 5 Short 5 0 100) ''erin'', makerNode = None\<rparr>]"
  using findMarketNodesToFill_complete [of marketBook 0 marketLists 10]
  by (simp add: marketBook_def marketLists_def auctionCompleteNodes_def newMarketNodeLists_def
        NodeList_new_def marketOrder_def sampleOrder_def isAuctionComplete_def)

lemma isVariant_Order_init: "\<not> isVariant (keys_Order order) ''init''"
  by (simp add: isVariant_def keys_Order_def)

end
